theory Spec2Isabelle
  imports Complex_Main "HOL-Library.Word"
begin

unbundle bit_operations_syntax

section \<open>JavaScript values used by utils.js\<close>

text \<open>
  A JavaScript number is modelled as a \<^typ>\<open>real\<close>: rounding of doubles is abstracted
  away, and the non-finite numbers (Infinity, NaN) are not values of \<^typ>\<open>real\<close>.  Where
  the source can produce one, the model function returns \<open>None\<close>.
  Exceptions raised by the platform are values of \<open>js_error\<close>.
\<close>

datatype js_error = RangeError | TypeError

subsection \<open>Arrays\<close>

text \<open>
  An array length is an integer in \<open>[0, 2^32 - 1]\<close>, and \<open>2^32 - 1 = 4294967295\<close>.
  \<open>Array(n)\<close> with a number \<open>n\<close> that is not such a length raises RangeError; otherwise
  it has \<open>n\<close> empty slots, which the spread \<open>[...Array(n)]\<close> reads as \<open>undefined\<close>
  (here the one value of \<^typ>\<open>unit\<close>).
\<close>

definition max_array_length :: nat where
  "max_array_length = 4294967295"

definition Array :: "real \<Rightarrow> js_error + unit list" where
  "Array n =
     (if 0 \<le> n \<and> n \<le> real max_array_length \<and> of_int \<lfloor>n\<rfloor> = n
      then Inr (replicate (nat \<lfloor>n\<rfloor>) ())
      else Inl RangeError)"

text \<open>
  \<open>sum.concat(pattern)\<close> returns a new array, the elements of \<open>sum\<close> followed by those
  of \<open>pattern\<close>; neither operand is changed.  Setting a length beyond the largest array
  length raises RangeError.
\<close>

definition concat_js :: "'a list \<Rightarrow> 'a list \<Rightarrow> js_error + 'a list" where
  "concat_js xs ys =
     (if length xs + length ys \<le> max_array_length then Inr (xs @ ys) else Inl RangeError)"

text \<open>\<open>xs.reduce(f, init)\<close>: a left fold that stops at the first exception.\<close>

fun reduce :: "('b \<Rightarrow> 'a \<Rightarrow> js_error + 'b) \<Rightarrow> 'b \<Rightarrow> 'a list \<Rightarrow> js_error + 'b" where
  "reduce f acc [] = Inr acc"
| "reduce f acc (x # xs) =
     (case f acc x of Inl e \<Rightarrow> Inl e | Inr acc' \<Rightarrow> reduce f acc' xs)"

section \<open>utils.js\<close>

subsection \<open>repeat\<close>

text \<open>
  \<^verbatim>\<open>return [...Array(n)].reduce((sum) => sum.concat(pattern), []);\<close>
\<close>

definition repeat :: "real \<Rightarrow> 'a list \<Rightarrow> js_error + 'a list" where
  "repeat n pattern =
     (case Array n of
        Inl e \<Rightarrow> Inl e
      | Inr slots \<Rightarrow> reduce (\<lambda>sum _. concat_js sum pattern) [] slots)"

subsection \<open>isPowerOf2\<close>

text \<open>
  The operands of \<open>&\<close> are converted by ToInt32: truncated towards zero and reduced
  modulo \<open>2^32\<close>.  The result is a 32-bit integer, compared with 0.
\<close>

definition ToInt32 :: "real \<Rightarrow> 32 word" where
  "ToInt32 x = word_of_int (if x < 0 then - \<lfloor>- x\<rfloor> else \<lfloor>x\<rfloor>)"

definition isPowerOf2 :: "real \<Rightarrow> bool" where
  "isPowerOf2 v = (ToInt32 v AND ToInt32 (v - 1) = 0)"

subsection \<open>getMouseX\<close>

text \<open>
  \<^verbatim>\<open>return (x / window.innerWidth) * 2 - 1;\<close>
  The global \<open>window.innerWidth\<close> is a parameter.  With \<open>innerWidth = 0\<close> the quotient
  is Infinity or NaN in JavaScript, which is \<open>None\<close> here.
\<close>

definition getMouseX :: "real \<Rightarrow> real \<Rightarrow> real option" where
  "getMouseX innerWidth x =
     (if innerWidth = 0 then None else Some ((x / innerWidth) * 2 - 1))"

subsection \<open>The WebGL context, the console and the image loader\<close>

type_synonym handle = nat

datatype GLenum =
    TEXTURE_2D | RGBA | UNSIGNED_BYTE
  | TEXTURE_WRAP_S | TEXTURE_WRAP_T | TEXTURE_MIN_FILTER | CLAMP_TO_EDGE | LINEAR
  | VERTEX_SHADER | FRAGMENT_SHADER | COMPILE_STATUS

record Image =
  src :: string
  width :: nat
  height :: nat

text \<open>The calls on the context that return nothing, with their arguments.\<close>

datatype gl_command =
    BindTexture GLenum handle
  | TexImage2D GLenum nat GLenum GLenum GLenum Image
  | GenerateMipmap GLenum
  | TexParameteri GLenum GLenum GLenum

record shader_obj =
  stage :: GLenum
  shader_source :: string
  compile_status :: bool
  info_log :: string

datatype log_entry =
    Logged string
  | LoggedImageShown nat string handle

text \<open>
  The state the functions of utils.js act on: the context \<open>gl\<close> (the next unused object
  name, the live shader objects, the commands issued so far, oldest first), the image
  loads that have been started (the URL given to \<open>image.src\<close> and the texture that the
  \<open>onload\<close> callback of that image fills), the console and the clock read by \<open>Date.now()\<close>.
  The context exists: a page without WebGL support, where \<open>gl\<close> is \<open>null\<close>, is not modelled.
\<close>

record world =
  fresh :: handle
  shaders :: "handle \<rightharpoonup> shader_obj"
  commands :: "gl_command list"
  loading :: "(string \<times> handle) list"
  console :: "log_entry list"
  now :: nat

definition issue :: "gl_command \<Rightarrow> world \<Rightarrow> world" where
  "issue c w = w\<lparr>commands := commands w @ [c]\<rparr>"

definition console_log :: "log_entry \<Rightarrow> world \<Rightarrow> world" where
  "console_log l w = w\<lparr>console := console w @ [l]\<rparr>"

text \<open>\<open>gl.createTexture()\<close> returns a new texture object.\<close>

definition gl_createTexture :: "world \<Rightarrow> handle \<times> world" where
  "gl_createTexture w = (fresh w, w\<lparr>fresh := Suc (fresh w)\<rparr>)"

text \<open>
  \<open>gl.createShader(type)\<close> returns a new shader object for the two shader stages and
  \<open>null\<close> for any other enum.
\<close>

definition gl_createShader :: "GLenum \<Rightarrow> world \<Rightarrow> handle option \<times> world" where
  "gl_createShader type w =
     (if type = VERTEX_SHADER \<or> type = FRAGMENT_SHADER
      then (Some (fresh w),
            w\<lparr>fresh := Suc (fresh w),
              shaders := (shaders w)(fresh w \<mapsto>
                \<lparr>stage = type, shader_source = [], compile_status = False, info_log = []\<rparr>)\<rparr>)
      else (None, w))"

definition gl_shaderSource :: "handle \<Rightarrow> string \<Rightarrow> world \<Rightarrow> world" where
  "gl_shaderSource shader source w =
     (case shaders w shader of
        None \<Rightarrow> w
      | Some obj \<Rightarrow> w\<lparr>shaders := (shaders w)(shader \<mapsto> obj\<lparr>shader_source := source\<rparr>)\<rparr>)"

text \<open>
  The GLSL compiler of the driver is a parameter: from the stage and the source it gives
  the compile status and the information log.
\<close>

type_synonym glsl_compiler = "GLenum \<Rightarrow> string \<Rightarrow> bool \<times> string"

definition gl_compileShader :: "glsl_compiler \<Rightarrow> handle \<Rightarrow> world \<Rightarrow> world" where
  "gl_compileShader glsl shader w =
     (case shaders w shader of
        None \<Rightarrow> w
      | Some obj \<Rightarrow>
          w\<lparr>shaders := (shaders w)(shader \<mapsto>
            obj\<lparr>compile_status := fst (glsl (stage obj) (shader_source obj)),
                info_log := snd (glsl (stage obj) (shader_source obj))\<rparr>)\<rparr>)"

text \<open>
  \<open>gl.getShaderParameter(shader, pname)\<close>, as a truth value: the compile status for
  \<open>COMPILE_STATUS\<close>; the other parameter names are not used by utils.js.
\<close>

definition gl_getShaderParameter :: "handle \<Rightarrow> GLenum \<Rightarrow> world \<Rightarrow> bool" where
  "gl_getShaderParameter shader pname w =
     (case shaders w shader of
        None \<Rightarrow> False
      | Some obj \<Rightarrow> pname = COMPILE_STATUS \<and> compile_status obj)"

definition gl_getShaderInfoLog :: "handle \<Rightarrow> world \<Rightarrow> string" where
  "gl_getShaderInfoLog shader w =
     (case shaders w shader of None \<Rightarrow> [] | Some obj \<Rightarrow> info_log obj)"

definition gl_deleteShader :: "handle \<Rightarrow> world \<Rightarrow> world" where
  "gl_deleteShader shader w = w\<lparr>shaders := (shaders w)(shader := None)\<rparr>"

subsection \<open>createShader\<close>

text \<open>
  The result is \<open>Inr (Some shader)\<close> for \<open>return shader\<close>, \<open>Inr None\<close> when the function
  ends without a \<open>return\<close> (the caller receives \<open>undefined\<close>), and \<open>Inl e\<close> for an exception:
  \<open>gl.shaderSource(null, source)\<close> raises TypeError.
\<close>

definition createShader ::
  "glsl_compiler \<Rightarrow> GLenum \<Rightarrow> string \<Rightarrow> world \<Rightarrow> (js_error + handle option) \<times> world" where
  "createShader glsl type source w =
     (case gl_createShader type w of
        (None, w1) \<Rightarrow> (Inl TypeError, w1)
      | (Some shader, w1) \<Rightarrow>
          (let w2 = gl_shaderSource shader source w1;
               w3 = gl_compileShader glsl shader w2;
               success = gl_getShaderParameter shader COMPILE_STATUS w3
           in if success then (Inr (Some shader), w3)
              else (let w4 = console_log (Logged (gl_getShaderInfoLog shader w3)) w3;
                        w5 = gl_deleteShader shader w4
                    in (Inr None, w5))))"

subsection \<open>loadTexture\<close>

text \<open>
  The body of the \<open>image.onload\<close> callback, with the variables it captures (\<open>texture\<close>,
  \<open>image\<close>, here \<open>img\<close>) as parameters.
\<close>

definition onload :: "handle \<Rightarrow> Image \<Rightarrow> world \<Rightarrow> world" where
  "onload texture img w =
     (let w1 = issue (BindTexture TEXTURE_2D texture) w;
          w2 = issue (TexImage2D TEXTURE_2D 0 RGBA RGBA UNSIGNED_BYTE img) w1
      in if isPowerOf2 (real (width img)) \<and> isPowerOf2 (real (height img))
         then issue (GenerateMipmap TEXTURE_2D) w2
         else (let w3 = issue (TexParameteri TEXTURE_2D TEXTURE_WRAP_S CLAMP_TO_EDGE) w2;
                   w4 = issue (TexParameteri TEXTURE_2D TEXTURE_WRAP_T CLAMP_TO_EDGE) w3
               in issue (TexParameteri TEXTURE_2D TEXTURE_MIN_FILTER LINEAR) w4))"

text \<open>
  \<open>loadTexture\<close> creates the texture, starts the load of the image (\<open>image.src = url\<close>)
  and returns the texture at once; \<open>onload\<close> runs later, if the load succeeds.
\<close>

definition loadTexture :: "string \<Rightarrow> world \<Rightarrow> handle \<times> world" where
  "loadTexture url w =
     (case gl_createTexture w of
        (texture, w1) \<Rightarrow> (texture, w1\<lparr>loading := loading w1 @ [(url, texture)]\<rparr>))"

subsection \<open>handleImageShown\<close>

record MouseEvent =
  clientX :: real

text \<open>
  \<^verbatim>\<open>const x = getMouseX(e.clientX);
  const textureIndex = Math.floor(((x + min) * max) / 2);\<close>
  The parameters \<open>min\<close> and \<open>max\<close> are \<open>min'\<close> and \<open>max'\<close> here; the caller passes
  both (the default \<open>min = 1\<close> of an omitted argument is the caller's \<open>1\<close>).
\<close>

definition textureIndex :: "real \<Rightarrow> MouseEvent \<Rightarrow> real \<Rightarrow> real \<Rightarrow> int option" where
  "textureIndex innerWidth e min' max' =
     (case getMouseX innerWidth (clientX e) of
        None \<Rightarrow> None
      | Some x \<Rightarrow> Some \<lfloor>((x + min') * max') / 2\<rfloor>)"

text \<open>
  The handler goes on with the index also when it is not finite, so there the model
  says which number it is.  With \<open>innerWidth = 0\<close> the quotient \<open>x / 0\<close> is Infinity
  for a positive \<open>x\<close>, \<open>-Infinity\<close> for a negative one and NaN for \<open>0 / 0\<close>.  Doubling,
  subtracting 1, adding \<open>min\<close>, halving and \<open>Math.floor\<close> leave such a number as it is;
  the product with \<open>max\<close> keeps it for a positive \<open>max\<close>, changes the sign of an infinity
  for a negative \<open>max\<close> and is NaN for \<open>max = 0\<close>.
\<close>

datatype nonfinite = Infinity | NegInfinity | NaN

datatype number = Finite int | NonFinite nonfinite

definition divide_by_zero :: "real \<Rightarrow> nonfinite" where
  "divide_by_zero x = (if 0 < x then Infinity else if x < 0 then NegInfinity else NaN)"

fun nonfinite_times :: "nonfinite \<Rightarrow> real \<Rightarrow> nonfinite" where
  "nonfinite_times Infinity m = (if 0 < m then Infinity else if m < 0 then NegInfinity else NaN)"
| "nonfinite_times NegInfinity m = (if 0 < m then NegInfinity else if m < 0 then Infinity else NaN)"
| "nonfinite_times NaN m = NaN"

definition textureIndex_value :: "real \<Rightarrow> MouseEvent \<Rightarrow> real \<Rightarrow> real \<Rightarrow> number" where
  "textureIndex_value innerWidth e min' max' =
     (case textureIndex innerWidth e min' max' of
        Some k \<Rightarrow> Finite k
      | None \<Rightarrow> NonFinite (nonfinite_times (divide_by_zero (clientX e)) max'))"

text \<open>
  The template literal converts the index with Number::toString.  An integer below
  \<open>2^53 = 9007199254740992\<close> in magnitude is printed with its decimal digits, after a
  minus sign when it is negative.  For a larger integer the digits are those of the
  shortest decimal that reads back as the same double, in exponent form from \<open>10^21\<close>;
  they depend on the binary representation, and the function that prints them is the
  parameter \<open>large\<close>.
\<close>

definition digit :: "nat \<Rightarrow> char" where
  "digit d = ''0123456789'' ! (d mod 10)"

function digits :: "nat \<Rightarrow> string" where
  "digits n = (if n < 10 then [digit n] else digits (n div 10) @ [digit (n mod 10)])"
  by pat_completeness auto
termination
  by (relation "measure id") auto

declare digits.simps [simp del]

fun toString :: "(int \<Rightarrow> string) \<Rightarrow> number \<Rightarrow> string" where
  "toString large (Finite k) =
     (if \<bar>k\<bar> < 9007199254740992
      then (if k < 0 then CHR ''-'' # digits (nat (- k)) else digits (nat k))
      else large k)"
| "toString large (NonFinite Infinity) = ''Infinity''"
| "toString large (NonFinite NegInfinity) = ''-Infinity''"
| "toString large (NonFinite NaN) = ''NaN''"

text \<open>
  \<^verbatim>\<open>if (textureIndex === 0) return;
  const texture = loadTexture(gl, `assets/images/image-${textureIndex}.webp`);
  console.log(Date.now(), "{{ handleImageShown }}", texture);\<close>
\<close>

definition handleImageShown ::
  "(int \<Rightarrow> string) \<Rightarrow> real \<Rightarrow> MouseEvent \<Rightarrow> real \<Rightarrow> real \<Rightarrow> world \<Rightarrow> world" where
  "handleImageShown large innerWidth e min' max' w =
     (let index = textureIndex_value innerWidth e min' max'
      in if index = Finite 0 then w
         else (case loadTexture (''assets/images/image-'' @ toString large index @ ''.webp'') w of
                 (texture, w1) \<Rightarrow>
                   console_log (LoggedImageShown (now w1) ''{{ handleImageShown }}'' texture) w1))"

subsection \<open>The mousemove listener of the page\<close>

definition imageSequenceLength :: real where
  "imageSequenceLength = 118"

definition mousemove :: "(int \<Rightarrow> string) \<Rightarrow> real \<Rightarrow> MouseEvent \<Rightarrow> world \<Rightarrow> world" where
  "mousemove large innerWidth e w = handleImageShown large innerWidth e 1 imageSequenceLength w"

subsection \<open>Decimal notation\<close>

text \<open>
  What it is for a string to be the decimal numeral of an integer, said without
  \<open>toString\<close>: the string is not empty, its characters are digits, it has no leading
  zero unless it is \<open>0\<close> itself, and read from the left in base ten it gives the number;
  a negative integer has a minus sign before the numeral of its magnitude.
\<close>

definition is_digit :: "char \<Rightarrow> bool" where
  "is_digit c \<longleftrightarrow> (48::nat) \<le> of_char c \<and> of_char c \<le> (57::nat)"

definition numeral_value :: "string \<Rightarrow> nat" where
  "numeral_value ds = foldl (\<lambda>a c. 10 * a + (of_char c - 48)) 0 ds"

definition is_numeral_of :: "nat \<Rightarrow> string \<Rightarrow> bool" where
  "is_numeral_of n ds \<longleftrightarrow>
     ds \<noteq> [] \<and> list_all is_digit ds \<and> (1 < length ds \<longrightarrow> hd ds \<noteq> CHR ''0'') \<and>
     numeral_value ds = n"

definition is_decimal_of :: "int \<Rightarrow> string \<Rightarrow> bool" where
  "is_decimal_of k s \<longleftrightarrow>
     (if k < 0 then s \<noteq> [] \<and> hd s = CHR ''-'' \<and> is_numeral_of (nat (- k)) (tl s)
      else is_numeral_of (nat k) s)"

subsection \<open>An example page and an example compiler\<close>

text \<open>
  A page whose context has created no object yet, and a compiler that accepts one source
  text and rejects every other with a diagnostic.
\<close>

definition example_world :: world where
  "example_world =
     \<lparr>fresh = 0, shaders = Map.empty, commands = [], loading = [], console = [], now = 7\<rparr>"

definition example_glsl :: glsl_compiler where
  "example_glsl type source =
     (if source = ''void main() {}'' then (True, [])
      else (False, ''ERROR: 0:1: syntax error''))"

section \<open>Properties of repeat\<close>

lemma Array_of_nat:
  "k \<le> max_array_length \<Longrightarrow> Array (real k) = Inr (replicate k ())"
  by (simp add: Array_def)

lemma reduce_concat_ok:
  "length acc + k * length p \<le> max_array_length \<Longrightarrow>
   reduce (\<lambda>sum _. concat_js sum p) acc (replicate k ()) = Inr (acc @ concat (replicate k p))"
proof (induction k arbitrary: acc)
  case 0
  then show ?case by simp
next
  case (Suc k)
  from Suc.prems have fits: "length acc + length p \<le> max_array_length" by simp
  from Suc.prems have "length (acc @ p) + k * length p \<le> max_array_length"
    by (simp add: add.assoc)
  from Suc.IH [OF this] fits show ?case
    by (simp add: concat_js_def)
qed

lemma reduce_concat_fail:
  "length acc \<le> max_array_length \<Longrightarrow> max_array_length < length acc + k * length p \<Longrightarrow>
   reduce (\<lambda>sum _. concat_js sum p) acc (replicate k ()) = Inl RangeError"
proof (induction k arbitrary: acc)
  case 0
  then show ?case by simp
next
  case (Suc k)
  show ?case
  proof (cases "length acc + length p \<le> max_array_length")
    case True
    then have a: "length (acc @ p) \<le> max_array_length" by simp
    from Suc.prems have b: "max_array_length < length (acc @ p) + k * length p"
      by (simp add: add.assoc)
    from Suc.IH [OF a b] True show ?thesis
      by (simp add: concat_js_def)
  next
    case False
    then show ?thesis by (simp add: concat_js_def)
  qed
qed

lemma length_concat_replicate: "length (concat (replicate n p)) = n * length p"
  by (induction n) simp_all

text \<open>
  Claim C4, as amended.  For every natural number \<open>n\<close> that is an array length
  (\<open>n \<le> 2^32 - 1\<close>) and every pattern \<open>p\<close>, empty or not, whose \<open>n\<close>-fold repetition is
  no longer than the largest array (\<open>n * length p \<le> 2^32 - 1\<close>), \<open>repeat(n, p)\<close> returns
  \<open>p\<close> concatenated \<open>n\<close> times in order, which has length \<open>n * length p\<close>, and
  \<open>repeat(0, p)\<close> is the empty array.  The result is a new array: \<open>repeat\<close> is a function
  of its two arguments and changes neither.
\<close>

theorem repeat_concat:
  "n \<le> max_array_length \<Longrightarrow> n * length p \<le> max_array_length \<Longrightarrow>
   repeat (real n) p = Inr (concat (replicate n p)) \<and>
   length (concat (replicate n p)) = n * length p \<and>
   repeat 0 p = Inr []"
proof (intro conjI)
  assume n: "n \<le> max_array_length" and np: "n * length p \<le> max_array_length"
  from np have "length ([]::'a list) + n * length p \<le> max_array_length" by simp
  from reduce_concat_ok [OF this] Array_of_nat [OF n]
  show "repeat (real n) p = Inr (concat (replicate n p))"
    by (simp add: repeat_def)
  show "length (concat (replicate n p)) = n * length p"
    by (rule length_concat_replicate)
  show "repeat 0 p = Inr []"
    by (simp add: repeat_def Array_def)
qed

theorem repeat_concat_witness:
  "(2::nat) \<le> max_array_length \<and> 2 * length [1::nat, 2] \<le> max_array_length \<and>
   repeat (real 2) [1::nat, 2] = Inr [1, 2, 1, 2] \<and>
   length [1::nat, 2, 1, 2] = 2 * length [1::nat, 2]"
  using repeat_concat [of 2 "[1::nat, 2]"]
  by (simp add: max_array_length_def numeral_2_eq_2)

text \<open>
  The claim as written, for every \<open>n \<ge> 0\<close>, fails at \<open>n = 2^32\<close> with the empty pattern:
  \<open>Array(4294967296)\<close> raises RangeError.
\<close>

theorem repeat_concat_counterexample:
  "(0::real) \<le> 4294967296 \<and>
   repeat 4294967296 ([]::nat list) = Inl RangeError \<and>
   repeat 4294967296 ([]::nat list) \<noteq> Inr (concat (replicate 4294967296 []))"
  by (simp add: repeat_def Array_def max_array_length_def)

text \<open>
  Claim C10, as amended.  For every pattern \<open>p\<close> and every negative \<open>n\<close>, \<open>repeat(n, p)\<close>
  raises RangeError and returns no array.  \<open>repeat\<close> either raises RangeError or returns
  an array, and it raises exactly when \<open>n\<close> is not an integer in \<open>[0, 2^32 - 1]\<close> or
  \<open>n * length p\<close> is above \<open>2^32 - 1\<close>.
\<close>

theorem repeat_fails_iff:
  "(n < 0 \<longrightarrow> repeat n p = Inl RangeError) \<and>
   (repeat n p = Inl RangeError \<or> (\<exists>xs. repeat n p = Inr xs)) \<and>
   (repeat n p = Inl RangeError \<longleftrightarrow>
      \<not> (0 \<le> n \<and> n \<le> real max_array_length \<and> of_int \<lfloor>n\<rfloor> = n \<and>
         nat \<lfloor>n\<rfloor> * length p \<le> max_array_length))"
proof (cases "0 \<le> n \<and> n \<le> real max_array_length \<and> of_int \<lfloor>n\<rfloor> = n")
  case False
  have "Array n = Inl RangeError"
    unfolding Array_def by (rule if_not_P [OF False])
  then have "repeat n p = Inl RangeError"
    by (simp add: repeat_def)
  with False show ?thesis by blast
next
  case True
  have arr: "Array n = Inr (replicate (nat \<lfloor>n\<rfloor>) ())"
    unfolding Array_def by (rule if_P [OF True])
  show ?thesis
  proof (cases "nat \<lfloor>n\<rfloor> * length p \<le> max_array_length")
    case fits: True
    then have "length ([]::'a list) + nat \<lfloor>n\<rfloor> * length p \<le> max_array_length" by simp
    from reduce_concat_ok [OF this] arr
    have "repeat n p = Inr (concat (replicate (nat \<lfloor>n\<rfloor>) p))"
      by (simp add: repeat_def)
    with True fits show ?thesis by simp
  next
    case over: False
    then have "max_array_length < length ([]::'a list) + nat \<lfloor>n\<rfloor> * length p" by simp
    from reduce_concat_fail [OF _ this] arr
    have "repeat n p = Inl RangeError"
      by (simp add: repeat_def)
    with True over show ?thesis by simp
  qed
qed

theorem repeat_fails_iff_witness:
  "(-1::real) < 0 \<and> repeat (-1) [1::nat] = Inl RangeError"
  using repeat_fails_iff [of "-1" "[1::nat]"] by simp

text \<open>
  The claim as written, an error exactly when \<open>n < 0\<close>, fails at \<open>n = 2^32\<close>, which is
  not negative.
\<close>

theorem repeat_fails_iff_counterexample:
  "repeat 4294967296 ([]::nat list) = Inl RangeError \<and> \<not> ((4294967296::real) < 0)"
  by (simp add: repeat_def Array_def max_array_length_def)

section \<open>Properties of isPowerOf2 and of the onload callback\<close>

lemma and_nat_le: "(m::nat) AND n \<le> m"
proof -
  have "int (m AND n) = int m AND int n" by (rule of_nat_and_eq)
  also have "\<dots> \<le> int m" by (rule AND_upper1) simp
  finally show ?thesis by simp
qed

text \<open>Clearing the lowest set bit of a positive number leaves nothing exactly for the powers of two.\<close>

lemma and_pred_nat:
  fixes n :: nat
  shows "0 < n \<Longrightarrow> (n AND (n - 1) = 0) \<longleftrightarrow> (\<exists>k. n = 2 ^ k)"
proof (induction n rule: less_induct)
  case (less n)
  show ?case
  proof (cases "even n")
    case True
    then obtain m where m: "n = 2 * m" by (auto elim: evenE)
    with less.prems have mpos: "0 < m" by simp
    have pred: "(n - 1) div 2 = m - 1" "(n - 1) \<noteq> 0" using m mpos by auto
    have "n AND (n - 1) = 2 * (m AND (m - 1))"
      using m mpos pred by (subst and_nat_unfold) simp
    moreover have "(m AND (m - 1) = 0) \<longleftrightarrow> (\<exists>k. m = 2 ^ k)"
      using less.IH [of m] m mpos by simp
    moreover have "(\<exists>k. m = 2 ^ k) \<longleftrightarrow> (\<exists>k. n = 2 ^ k)"
    proof
      assume "\<exists>k. m = 2 ^ k"
      then obtain k where "m = 2 ^ k" ..
      with m have "n = 2 ^ Suc k" by simp
      then show "\<exists>k. n = 2 ^ k" ..
    next
      assume "\<exists>k. n = 2 ^ k"
      then obtain k where k: "n = 2 ^ k" ..
      with True less.prems have "k \<noteq> 0" by (cases k) auto
      then obtain j where "k = Suc j" by (cases k) auto
      with k m have "m = 2 ^ j" by simp
      then show "\<exists>k. m = 2 ^ k" ..
    qed
    ultimately show ?thesis by simp
  next
    case False
    then obtain m where m: "n = 2 * m + 1" by (auto elim: oddE)
    show ?thesis
    proof (cases "m = 0")
      case True
      with m have "n = 2 ^ 0" by simp
      moreover from True m have "n AND (n - 1) = 0" by simp
      ultimately show ?thesis by blast
    next
      case m0: False
      have "n AND (n - 1) = 2 * m"
        using m m0 by (subst and_nat_unfold) simp
      with m0 have "n AND (n - 1) \<noteq> 0" by simp
      moreover have "\<not> (\<exists>k. n = 2 ^ k)"
      proof
        assume "\<exists>k. n = 2 ^ k"
        then obtain k where k: "n = 2 ^ k" ..
        with False have "k = 0" by (cases k) auto
        with k m m0 show False by simp
      qed
      ultimately show ?thesis by simp
    qed
  qed
qed

lemma ToInt32_of_nat: "ToInt32 (real n) = of_nat n"
  by (simp add: ToInt32_def)

lemma ToInt32_pred: "0 < n \<Longrightarrow> ToInt32 (real n - 1) = of_nat (n - 1)"
proof -
  assume "0 < n"
  then have "real n - 1 = real (n - 1)" by (simp add: of_nat_diff)
  then show ?thesis by (simp only: ToInt32_of_nat)
qed

text \<open>
  On the sizes an image can have (below \<open>2^32\<close>), \<open>isPowerOf2\<close> accepts the powers of
  two and, besides them, 0.
\<close>

lemma isPowerOf2_nat:
  assumes "n < 2 ^ 32"
  shows "isPowerOf2 (real n) \<longleftrightarrow> n = 0 \<or> (\<exists>k. n = 2 ^ k)"
proof (cases "n = 0")
  case True
  then show ?thesis by (simp add: isPowerOf2_def ToInt32_def)
next
  case False
  then have pos: "0 < n" by simp
  have "n AND (n - 1) \<le> n" by (rule and_nat_le)
  with assms have small: "n AND (n - 1) < 2 ^ 32" by simp
  have "isPowerOf2 (real n) \<longleftrightarrow> (of_nat (n AND (n - 1)) :: 32 word) = 0"
    by (simp add: isPowerOf2_def ToInt32_of_nat ToInt32_pred [OF pos] of_nat_and_eq)
  also have "\<dots> \<longleftrightarrow> n AND (n - 1) = 0"
  proof
    assume "(of_nat (n AND (n - 1)) :: 32 word) = 0"
    then have "2 ^ 32 dvd (n AND (n - 1))" by (simp add: word_of_nat_eq_0_iff)
    with small show "n AND (n - 1) = 0" by (auto dest: dvd_imp_le)
  next
    assume "n AND (n - 1) = 0"
    then show "(of_nat (n AND (n - 1)) :: 32 word) = 0" by simp
  qed
  also have "\<dots> \<longleftrightarrow> (\<exists>k. n = 2 ^ k)" by (rule and_pred_nat [OF pos])
  finally show ?thesis using False by simp
qed

text \<open>
  Claim C1.  The claim asks that the check be true at 1, 2, 4, 8, 256 and 1024 and false
  at 0, 3, 5, 1023 and 1025.  The code agrees at every value but 0: \<open>0 & (0 - 1)\<close> is
  \<open>0 & -1 = 0\<close>, so \<open>isPowerOf2(0)\<close> is true.
\<close>

theorem isPowerOf2_values:
  "isPowerOf2 0 \<and>
   isPowerOf2 1 \<and> isPowerOf2 2 \<and> isPowerOf2 4 \<and> isPowerOf2 8 \<and> isPowerOf2 256 \<and>
   isPowerOf2 1024 \<and>
   \<not> isPowerOf2 3 \<and> \<not> isPowerOf2 5 \<and> \<not> isPowerOf2 1023 \<and> \<not> isPowerOf2 1025"
  by (simp add: isPowerOf2_def ToInt32_def)

lemma onload_commands:
  "commands (onload texture img w) =
     commands w @
       [BindTexture TEXTURE_2D texture, TexImage2D TEXTURE_2D 0 RGBA RGBA UNSIGNED_BYTE img] @
       (if isPowerOf2 (real (width img)) \<and> isPowerOf2 (real (height img))
        then [GenerateMipmap TEXTURE_2D]
        else [TexParameteri TEXTURE_2D TEXTURE_WRAP_S CLAMP_TO_EDGE,
              TexParameteri TEXTURE_2D TEXTURE_WRAP_T CLAMP_TO_EDGE,
              TexParameteri TEXTURE_2D TEXTURE_MIN_FILTER LINEAR])"
  by (simp add: onload_def issue_def Let_def)

text \<open>
  Claim C8.  The claim asks that an image whose width and height are not both exact
  powers of two gets no mipmaps, clamp-to-edge wrapping and the linear filter.  For an
  image of width 0 and height 0 (0 is no power of two) the callback binds the texture,
  uploads the image and generates mipmaps; it sets no texture parameter.
\<close>

theorem onload_zero_size:
  "commands (onload texture \<lparr>src = url, width = 0, height = 0\<rparr> w) =
     commands w @
       [BindTexture TEXTURE_2D texture,
        TexImage2D TEXTURE_2D 0 RGBA RGBA UNSIGNED_BYTE \<lparr>src = url, width = 0, height = 0\<rparr>,
        GenerateMipmap TEXTURE_2D]"
  by (simp add: onload_def issue_def isPowerOf2_def ToInt32_def)

text \<open>
  For an image with positive width and height the callback follows the policy: mipmaps
  exactly when both are powers of two, and otherwise the three texture parameters.
\<close>

lemma onload_policy:
  assumes "0 < width img" "width img < 2 ^ 32" "0 < height img" "height img < 2 ^ 32"
  shows "commands (onload texture img w) =
     commands w @
       [BindTexture TEXTURE_2D texture, TexImage2D TEXTURE_2D 0 RGBA RGBA UNSIGNED_BYTE img] @
       (if (\<exists>i. width img = 2 ^ i) \<and> (\<exists>j. height img = 2 ^ j)
        then [GenerateMipmap TEXTURE_2D]
        else [TexParameteri TEXTURE_2D TEXTURE_WRAP_S CLAMP_TO_EDGE,
              TexParameteri TEXTURE_2D TEXTURE_WRAP_T CLAMP_TO_EDGE,
              TexParameteri TEXTURE_2D TEXTURE_MIN_FILTER LINEAR])"
proof -
  from assms have "isPowerOf2 (real (width img)) \<longleftrightarrow> (\<exists>i. width img = 2 ^ i)"
    by (simp add: isPowerOf2_nat)
  moreover from assms have "isPowerOf2 (real (height img)) \<longleftrightarrow> (\<exists>j. height img = 2 ^ j)"
    by (simp add: isPowerOf2_nat)
  ultimately show ?thesis
    by (simp only: onload_commands)
qed

section \<open>Properties of the pointer mapping\<close>

text \<open>
  Claim C9.  For every viewport width \<open>W > 0\<close>, \<open>getMouseX\<close> maps 0 to \<open>-1\<close> and \<open>W\<close>
  to 1.
\<close>

theorem getMouseX_ends:
  "0 < W \<Longrightarrow> getMouseX W 0 = Some (- 1) \<and> getMouseX W W = Some 1"
  by (simp add: getMouseX_def)

theorem getMouseX_ends_witness:
  "(0::real) < 1920 \<and> getMouseX 1920 0 = Some (- 1) \<and> getMouseX 1920 1920 = Some 1"
  using getMouseX_ends [of 1920] by simp

lemma textureIndex_Some:
  "W \<noteq> 0 \<Longrightarrow>
   textureIndex W e mn mx = Some \<lfloor>(((clientX e / W) * 2 - 1 + mn) * mx) / 2\<rfloor>"
  by (simp add: textureIndex_def getMouseX_def)

text \<open>
  Claim C5.  With \<open>x\<close> the normalized pointer position, the frame index is
  \<open>floor(((x + min) * max) / 2)\<close>; for a pointer at the centre of a viewport of width
  \<open>W > 0\<close>, with \<open>min = 1\<close> and \<open>max = 118\<close>, the normalized position is 0 and the
  frame index is 59.
\<close>

theorem textureIndex_center:
  "0 < W \<Longrightarrow>
   (\<forall>x. getMouseX W (clientX e) = Some x \<longrightarrow>
        textureIndex W e mn mx = Some \<lfloor>((x + mn) * mx) / 2\<rfloor>) \<and>
   getMouseX W (W / 2) = Some 0 \<and>
   textureIndex W \<lparr>clientX = W / 2\<rparr> 1 118 = Some 59"
  by (simp add: textureIndex_def getMouseX_def)

theorem textureIndex_center_witness:
  "(0::real) < 1920 \<and> getMouseX 1920 (1920 / 2) = Some 0 \<and>
   textureIndex 1920 \<lparr>clientX = 1920 / 2\<rparr> 1 118 = Some 59"
  using textureIndex_center [of 1920] by simp

text \<open>
  Claim C3, as amended.  For every fixed \<open>min\<close> and every fixed \<open>max \<ge> 0\<close>, and a fixed
  positive viewport width, the frame index is monotonic non-decreasing in the pointer X
  coordinate.
\<close>

theorem textureIndex_mono:
  assumes "0 < W" and "0 \<le> mx" and "clientX e1 \<le> clientX e2"
  shows "\<exists>k1 k2. textureIndex W e1 mn mx = Some k1 \<and> textureIndex W e2 mn mx = Some k2 \<and> k1 \<le> k2"
proof -
  define a where "a = clientX e1 / W"
  define b where "b = clientX e2 / W"
  from assms(1,3) have "a \<le> b"
    unfolding a_def b_def by (simp add: divide_right_mono)
  then have "a * 2 - 1 + mn \<le> b * 2 - 1 + mn"
    by simp
  then have "(a * 2 - 1 + mn) * mx \<le> (b * 2 - 1 + mn) * mx"
    using assms(2) by (rule mult_right_mono)
  then have "((a * 2 - 1 + mn) * mx) / 2 \<le> ((b * 2 - 1 + mn) * mx) / 2"
    by simp
  then have "\<lfloor>((a * 2 - 1 + mn) * mx) / 2\<rfloor> \<le> \<lfloor>((b * 2 - 1 + mn) * mx) / 2\<rfloor>"
    by (rule floor_mono)
  moreover from assms(1) have "textureIndex W e1 mn mx = Some \<lfloor>((a * 2 - 1 + mn) * mx) / 2\<rfloor>"
    unfolding a_def by (simp add: textureIndex_Some)
  moreover from assms(1) have "textureIndex W e2 mn mx = Some \<lfloor>((b * 2 - 1 + mn) * mx) / 2\<rfloor>"
    unfolding b_def by (simp add: textureIndex_Some)
  ultimately show ?thesis
    by simp
qed

theorem textureIndex_mono_witness:
  "(0::real) < 1000 \<and> (0::real) \<le> 118 \<and> clientX \<lparr>clientX = 250\<rparr> \<le> clientX \<lparr>clientX = 500\<rparr> \<and>
   textureIndex 1000 \<lparr>clientX = 250\<rparr> 1 118 = Some 29 \<and>
   textureIndex 1000 \<lparr>clientX = 500\<rparr> 1 118 = Some 59 \<and> (29::int) \<le> 59"
  using textureIndex_mono [of 1000 118 "\<lparr>clientX = 250\<rparr>" "\<lparr>clientX = 500\<rparr>" 1]
  by (simp add: textureIndex_def getMouseX_def)

text \<open>
  The claim as written, for every \<open>max\<close>, fails for a negative one: with \<open>min = 1\<close>,
  \<open>max = -2\<close> and a viewport of width 2, the pointer at 0 gives index 0 and the pointer
  at 2 gives index \<open>-2\<close>.
\<close>

theorem textureIndex_mono_counterexample:
  "(0::real) < 2 \<and> clientX \<lparr>clientX = 0\<rparr> \<le> clientX \<lparr>clientX = 2\<rparr> \<and>
   textureIndex 2 \<lparr>clientX = 0\<rparr> 1 (- 2) = Some 0 \<and>
   textureIndex 2 \<lparr>clientX = 2\<rparr> 1 (- 2) = Some (- 2) \<and>
   \<not> ((0::int) \<le> - 2)"
  by (simp add: textureIndex_def getMouseX_def)

subsection \<open>The printed index\<close>

text \<open>\<open>digits\<close> prints the decimal numeral of its argument.\<close>

lemma of_char_nth_digit:
  "m < 10 \<Longrightarrow> of_char (''0123456789'' ! m) = (48::nat) + m"
proof -
  assume "m < 10"
  then have "m = 0 \<or> m = 1 \<or> m = 2 \<or> m = 3 \<or> m = 4 \<or> m = 5 \<or> m = 6 \<or> m = 7 \<or> m = 8 \<or> m = 9"
    by arith
  then show ?thesis
    by (elim disjE) simp_all
qed

lemma of_char_digit: "of_char (digit d) = (48::nat) + d mod 10"
  by (simp add: digit_def of_char_nth_digit)

lemma is_digit_digit: "is_digit (digit d)"
proof -
  have "d mod 10 < 10" by simp
  then show ?thesis by (simp add: is_digit_def of_char_digit)
qed

lemma digit_not_zero: "0 < d mod 10 \<Longrightarrow> digit d \<noteq> CHR ''0''"
proof
  assume pos: "0 < d mod 10" and "digit d = CHR ''0''"
  then have "(of_char (digit d) :: nat) = of_char (CHR ''0'')" by simp
  with pos show False by (simp add: of_char_digit)
qed

lemma digits_small: "n < 10 \<Longrightarrow> digits n = [digit n]"
  by (subst digits.simps) simp

lemma digits_large: "\<not> n < 10 \<Longrightarrow> digits n = digits (n div 10) @ [digit (n mod 10)]"
  by (subst digits.simps) simp

lemma digits_not_Nil: "digits n \<noteq> []"
  by (cases "n < 10") (simp_all add: digits_small digits_large)

lemma list_all_digits: "list_all is_digit (digits n)"
proof (induction n rule: digits.induct)
  case (1 n)
  show ?case
  proof (cases "n < 10")
    case True
    then show ?thesis by (simp add: digits_small is_digit_digit)
  next
    case False
    with "1" show ?thesis by (simp add: digits_large is_digit_digit)
  qed
qed

lemma numeral_value_snoc:
  "numeral_value (ds @ [c]) = 10 * numeral_value ds + (of_char c - 48)"
  by (simp add: numeral_value_def)

lemma numeral_value_digits: "numeral_value (digits n) = n"
proof (induction n rule: digits.induct)
  case (1 n)
  show ?case
  proof (cases "n < 10")
    case True
    then show ?thesis by (simp add: digits_small numeral_value_def of_char_digit)
  next
    case False
    with "1" have "numeral_value (digits (n div 10)) = n div 10" by simp
    with False show ?thesis
      by (simp add: digits_large numeral_value_snoc of_char_digit)
  qed
qed

lemma hd_digits: "0 < n \<Longrightarrow> hd (digits n) \<noteq> CHR ''0''"
proof (induction n rule: digits.induct)
  case (1 n)
  show ?case
  proof (cases "n < 10")
    case True
    with "1.prems" have "0 < n mod 10" by simp
    with True show ?thesis by (simp add: digits_small digit_not_zero)
  next
    case False
    then have "0 < n div 10" by simp
    with "1.IH" False have "hd (digits (n div 10)) \<noteq> CHR ''0''" by simp
    with False show ?thesis by (simp add: digits_large digits_not_Nil)
  qed
qed

lemma is_numeral_of_digits: "is_numeral_of n (digits n)"
proof -
  have "1 < length (digits n) \<longrightarrow> hd (digits n) \<noteq> CHR ''0''"
  proof
    assume long: "1 < length (digits n)"
    have "0 < n"
    proof (rule ccontr)
      assume "\<not> 0 < n"
      then have "digits n = [digit n]" by (simp add: digits_small)
      with long show False by simp
    qed
    then show "hd (digits n) \<noteq> CHR ''0''" by (rule hd_digits)
  qed
  then show ?thesis
    by (simp add: is_numeral_of_def digits_not_Nil list_all_digits numeral_value_digits)
qed

lemma toString_decimal:
  "\<bar>k\<bar> < 9007199254740992 \<Longrightarrow> is_decimal_of k (toString large (Finite k))"
  by (simp add: is_decimal_of_def is_numeral_of_digits)

subsection \<open>The handler\<close>

lemma textureIndex_value_finite:
  "W \<noteq> 0 \<Longrightarrow>
   textureIndex_value W e mn mx = Finite \<lfloor>(((clientX e / W) * 2 - 1 + mn) * mx) / 2\<rfloor>"
  by (simp add: textureIndex_value_def textureIndex_def getMouseX_def)

lemma textureIndex_value_nonfinite:
  "textureIndex_value 0 e mn mx = NonFinite (nonfinite_times (divide_by_zero (clientX e)) mx)"
  by (simp add: textureIndex_value_def textureIndex_def getMouseX_def)

lemma handleImageShown_zero:
  "textureIndex_value W e mn mx = Finite 0 \<Longrightarrow> handleImageShown large W e mn mx w = w"
  by (simp add: handleImageShown_def)

lemma handleImageShown_load:
  "textureIndex_value W e mn mx \<noteq> Finite 0 \<Longrightarrow>
   handleImageShown large W e mn mx w =
     w\<lparr>fresh := Suc (fresh w),
       loading := loading w @
         [(''assets/images/image-'' @ toString large (textureIndex_value W e mn mx) @ ''.webp'',
           fresh w)],
       console := console w @
         [LoggedImageShown (now w) ''{{ handleImageShown }}'' (fresh w)]\<rparr>"
  by (simp add: handleImageShown_def loadTexture_def gl_createTexture_def console_log_def Let_def)

text \<open>
  Claim C6.  In the pointer-move handler, if the computed frame index is 0 the handler
  returns without any effect.  For every other index, finite or not, it creates one
  texture, starts one image load and logs one line; the URL of the load is
  \<open>assets/images/image-\<close>, the printed index and \<open>.webp\<close>.  The printed index is the
  decimal numeral of an integer below \<open>2^53\<close> in magnitude, what \<open>large\<close> prints for
  a larger integer, and \<open>Infinity\<close>, \<open>-Infinity\<close> or \<open>NaN\<close> otherwise.  The index is
  \<open>floor(((x + min) * max) / 2)\<close> for a viewport width other than 0, and for the
  width 0 it is NaN or an infinity, by the signs of \<open>clientX\<close> and \<open>max\<close>.
\<close>

theorem handleImageShown_policy:
  "(textureIndex_value W e mn mx = Finite 0 \<longrightarrow> handleImageShown large W e mn mx w = w) \<and>
   (textureIndex_value W e mn mx \<noteq> Finite 0 \<longrightarrow>
      handleImageShown large W e mn mx w =
        w\<lparr>fresh := Suc (fresh w),
          loading := loading w @
            [(''assets/images/image-'' @ toString large (textureIndex_value W e mn mx) @ ''.webp'',
              fresh w)],
          console := console w @
            [LoggedImageShown (now w) ''{{ handleImageShown }}'' (fresh w)]\<rparr>) \<and>
   (\<forall>k. \<bar>k\<bar> < 9007199254740992 \<longrightarrow> is_decimal_of k (toString large (Finite k))) \<and>
   (\<forall>k. 9007199254740992 \<le> \<bar>k\<bar> \<longrightarrow> toString large (Finite k) = large k) \<and>
   toString large (NonFinite Infinity) = ''Infinity'' \<and>
   toString large (NonFinite NegInfinity) = ''-Infinity'' \<and>
   toString large (NonFinite NaN) = ''NaN'' \<and>
   (W \<noteq> 0 \<longrightarrow>
      textureIndex_value W e mn mx = Finite \<lfloor>(((clientX e / W) * 2 - 1 + mn) * mx) / 2\<rfloor>) \<and>
   (W = 0 \<longrightarrow>
      textureIndex_value W e mn mx =
        NonFinite (if mx = 0 \<or> clientX e = 0 then NaN
                   else if (0 < clientX e) = (0 < mx) then Infinity else NegInfinity))"
proof (intro conjI impI allI)
  assume "W = 0"
  then show "textureIndex_value W e mn mx =
        NonFinite (if mx = 0 \<or> clientX e = 0 then NaN
                   else if (0 < clientX e) = (0 < mx) then Infinity else NegInfinity)"
    by (auto simp add: textureIndex_value_nonfinite divide_by_zero_def)
next
  fix k :: int
  assume "\<bar>k\<bar> < 9007199254740992"
  then show "is_decimal_of k (toString large (Finite k))"
    by (rule toString_decimal)
qed (simp_all add: handleImageShown_zero handleImageShown_load textureIndex_value_finite)

theorem handleImageShown_policy_witness:
  "textureIndex_value 1000 \<lparr>clientX = 0\<rparr> 1 118 = Finite 0 \<and>
   handleImageShown (\<lambda>k. []) 1000 \<lparr>clientX = 0\<rparr> 1 118 example_world = example_world \<and>
   textureIndex_value 1000 \<lparr>clientX = 500\<rparr> 1 118 = Finite 59 \<and>
   handleImageShown (\<lambda>k. []) 1000 \<lparr>clientX = 500\<rparr> 1 118 example_world =
     example_world\<lparr>fresh := 1, loading := [(''assets/images/image-59.webp'', 0)],
        console := [LoggedImageShown 7 ''{{ handleImageShown }}'' 0]\<rparr> \<and>
   is_decimal_of 59 ''59'' \<and>
   textureIndex_value 0 \<lparr>clientX = 500\<rparr> 1 118 = NonFinite Infinity \<and>
   handleImageShown (\<lambda>k. []) 0 \<lparr>clientX = 500\<rparr> 1 118 example_world =
     example_world\<lparr>fresh := 1, loading := [(''assets/images/image-Infinity.webp'', 0)],
        console := [LoggedImageShown 7 ''{{ handleImageShown }}'' 0]\<rparr>"
proof -
  have d: "digits 59 = ''59''"
    by code_simp
  note p0 = handleImageShown_policy [of 1000 "\<lparr>clientX = 0\<rparr>" 1 118 "\<lambda>k. []" example_world]
  note p59 = handleImageShown_policy [of 1000 "\<lparr>clientX = 500\<rparr>" 1 118 "\<lambda>k. []" example_world]
  note pinf = handleImageShown_policy [of 0 "\<lparr>clientX = 500\<rparr>" 1 118 "\<lambda>k. []" example_world]
  from p0 have i0: "textureIndex_value 1000 \<lparr>clientX = 0\<rparr> 1 118 = Finite 0"
    by simp
  with p0 have a: "handleImageShown (\<lambda>k. []) 1000 \<lparr>clientX = 0\<rparr> 1 118 example_world = example_world"
    by simp
  from p59 have i59: "textureIndex_value 1000 \<lparr>clientX = 500\<rparr> 1 118 = Finite 59"
    by simp
  have dec: "is_decimal_of 59 (toString (\<lambda>k. []) (Finite 59))"
    by (rule p59 [THEN conjunct2, THEN conjunct2, THEN conjunct1, rule_format]) simp
  from p59 i59 d have b: "handleImageShown (\<lambda>k. []) 1000 \<lparr>clientX = 500\<rparr> 1 118 example_world =
     example_world\<lparr>fresh := 1, loading := [(''assets/images/image-59.webp'', 0)],
        console := [LoggedImageShown 7 ''{{ handleImageShown }}'' 0]\<rparr>"
    by (simp add: example_world_def)
  from pinf have iinf: "textureIndex_value 0 \<lparr>clientX = 500\<rparr> 1 118 = NonFinite Infinity"
    by simp
  from pinf iinf have c: "handleImageShown (\<lambda>k. []) 0 \<lparr>clientX = 500\<rparr> 1 118 example_world =
     example_world\<lparr>fresh := 1, loading := [(''assets/images/image-Infinity.webp'', 0)],
        console := [LoggedImageShown 7 ''{{ handleImageShown }}'' 0]\<rparr>"
    by (simp add: example_world_def)
  from dec d have "is_decimal_of 59 ''59''" by simp
  with i0 a i59 b iinf c show ?thesis by simp
qed


text \<open>
  Claim C2.  For every pointer-move event with \<open>clientX\<close> in \<open>[0, W]\<close>, \<open>W > 0\<close> the
  viewport width, handled by the listener of the page (\<open>min = 1\<close>, \<open>max = 118\<close>), the
  frame index is an integer \<open>k\<close> in \<open>[0, 118]\<close>; at \<open>k = 0\<close> the listener requests no
  texture and changes nothing, and otherwise \<open>k\<close> is in \<open>[1, 118]\<close> and the listener
  starts one image load, of the URL \<open>assets/images/image-\<close>, the decimal numeral of \<open>k\<close>
  and \<open>.webp\<close>.
\<close>

theorem mousemove_requests:
  assumes "0 < W" and "0 \<le> clientX e" and "clientX e \<le> W"
  shows "\<exists>k. textureIndex W e 1 imageSequenceLength = Some k \<and>
           textureIndex_value W e 1 imageSequenceLength = Finite k \<and> 0 \<le> k \<and> k \<le> 118 \<and>
           (k = 0 \<and> mousemove large W e w = w \<or>
            1 \<le> k \<and> k \<le> 118 \<and>
            (\<exists>ds. is_decimal_of k ds \<and>
               mousemove large W e w =
                 w\<lparr>fresh := Suc (fresh w),
                   loading := loading w @ [(''assets/images/image-'' @ ds @ ''.webp'', fresh w)],
                   console := console w @
                     [LoggedImageShown (now w) ''{{ handleImageShown }}'' (fresh w)]\<rparr>))"
proof -
  define r where "r = clientX e / W"
  from assms have r: "0 \<le> r" "r \<le> 1"
    unfolding r_def by simp_all
  define k where "k = \<lfloor>((r * 2 - 1 + 1) * 118) / 2\<rfloor>"
  have "0 \<le> ((r * 2 - 1 + 1) * 118) / 2" using r by simp
  then have k0: "0 \<le> k" unfolding k_def by simp
  have "((r * 2 - 1 + 1) * 118) / 2 \<le> 118" using r by simp
  then have "k \<le> \<lfloor>118::real\<rfloor>" unfolding k_def by (rule floor_mono)
  then have k118: "k \<le> 118" by simp
  from assms(1) have idx: "textureIndex W e 1 imageSequenceLength = Some k"
    unfolding k_def r_def by (simp add: textureIndex_def getMouseX_def imageSequenceLength_def)
  then have val: "textureIndex_value W e 1 imageSequenceLength = Finite k"
    by (simp add: textureIndex_value_def)
  show ?thesis
  proof (cases "k = 0")
    case True
    with val have "mousemove large W e w = w"
      by (simp add: mousemove_def handleImageShown_zero)
    with idx val True show ?thesis by simp
  next
    case False
    with k0 have k1: "1 \<le> k" by simp
    from k0 k118 have "\<bar>k\<bar> < 9007199254740992" by simp
    then have dec: "is_decimal_of k (toString large (Finite k))"
      by (rule toString_decimal)
    from val False have "textureIndex_value W e 1 imageSequenceLength \<noteq> Finite 0" by simp
    from handleImageShown_load [OF this] val
    have "mousemove large W e w =
        w\<lparr>fresh := Suc (fresh w),
          loading := loading w @
            [(''assets/images/image-'' @ toString large (Finite k) @ ''.webp'', fresh w)],
          console := console w @
            [LoggedImageShown (now w) ''{{ handleImageShown }}'' (fresh w)]\<rparr>"
      by (simp add: mousemove_def)
    with dec have "\<exists>ds. is_decimal_of k ds \<and>
        mousemove large W e w =
          w\<lparr>fresh := Suc (fresh w),
            loading := loading w @ [(''assets/images/image-'' @ ds @ ''.webp'', fresh w)],
            console := console w @
              [LoggedImageShown (now w) ''{{ handleImageShown }}'' (fresh w)]\<rparr>"
      by blast
    with idx val k0 k1 k118 show ?thesis by blast
  qed
qed

theorem mousemove_requests_witness:
  "(0::real) < 1000 \<and> 0 \<le> clientX \<lparr>clientX = 1000\<rparr> \<and> clientX \<lparr>clientX = 1000\<rparr> \<le> 1000 \<and>
   textureIndex 1000 \<lparr>clientX = 1000\<rparr> 1 imageSequenceLength = Some 118 \<and>
   (\<exists>ds. is_decimal_of 118 ds \<and>
      mousemove (\<lambda>k. []) 1000 \<lparr>clientX = 1000\<rparr> example_world =
        example_world\<lparr>fresh := 1,
          loading := [(''assets/images/image-'' @ ds @ ''.webp'', 0)],
          console := [LoggedImageShown 7 ''{{ handleImageShown }}'' 0]\<rparr>) \<and>
   is_decimal_of 118 ''118'' \<and>
   mousemove (\<lambda>k. []) 1000 \<lparr>clientX = 1000\<rparr> example_world =
     example_world\<lparr>fresh := 1,
       loading := [(''assets/images/image-118.webp'', 0)],
       console := [LoggedImageShown 7 ''{{ handleImageShown }}'' 0]\<rparr>"
proof -
  have idx: "textureIndex 1000 \<lparr>clientX = 1000\<rparr> 1 imageSequenceLength = Some 118"
    by (simp add: textureIndex_def getMouseX_def imageSequenceLength_def)
  from mousemove_requests [of 1000 "\<lparr>clientX = 1000\<rparr>" "\<lambda>k. []" example_world] idx
  have a: "\<exists>ds. is_decimal_of 118 ds \<and>
      mousemove (\<lambda>k. []) 1000 \<lparr>clientX = 1000\<rparr> example_world =
        example_world\<lparr>fresh := 1,
          loading := [(''assets/images/image-'' @ ds @ ''.webp'', 0)],
          console := [LoggedImageShown 7 ''{{ handleImageShown }}'' 0]\<rparr>"
    by (simp add: example_world_def)
  have d: "digits 118 = ''118''"
    by code_simp
  have b: "is_decimal_of 118 ''118''"
    by (simp add: is_decimal_of_def is_numeral_of_def is_digit_def numeral_value_def)
  from idx have "textureIndex_value 1000 \<lparr>clientX = 1000\<rparr> 1 imageSequenceLength = Finite 118"
    by (simp add: textureIndex_value_def)
  with d have c: "mousemove (\<lambda>k. []) 1000 \<lparr>clientX = 1000\<rparr> example_world =
     example_world\<lparr>fresh := 1,
       loading := [(''assets/images/image-118.webp'', 0)],
       console := [LoggedImageShown 7 ''{{ handleImageShown }}'' 0]\<rparr>"
    by (simp add: mousemove_def handleImageShown_def loadTexture_def gl_createTexture_def
        console_log_def example_world_def)
  from idx a b c show ?thesis by simp
qed

section \<open>Properties of createShader\<close>

text \<open>A type that is no shader stage makes \<open>createShader\<close> raise.\<close>

lemma createShader_invalid_type:
  "type \<noteq> VERTEX_SHADER \<Longrightarrow> type \<noteq> FRAGMENT_SHADER \<Longrightarrow>
   createShader glsl type source w = (Inl TypeError, w)"
  by (simp add: createShader_def gl_createShader_def)

text \<open>
  Claim C7.  For a shader stage (vertex or fragment) and every source: if the source
  compiles, \<open>createShader\<close> returns the handle of the new shader, which holds the source
  and is compiled; if it fails to compile, \<open>createShader\<close> logs the information log of the
  compiler, deletes the shader and returns \<open>undefined\<close>.  In neither case does it raise.
\<close>

theorem createShader_result:
  assumes "type = VERTEX_SHADER \<or> type = FRAGMENT_SHADER"
  shows "(fst (glsl type source) \<longrightarrow>
            createShader glsl type source w =
              (Inr (Some (fresh w)),
               w\<lparr>fresh := Suc (fresh w),
                 shaders := (shaders w)(fresh w \<mapsto>
                   \<lparr>stage = type, shader_source = source, compile_status = True,
                    info_log = snd (glsl type source)\<rparr>)\<rparr>)) \<and>
         (\<not> fst (glsl type source) \<longrightarrow>
            createShader glsl type source w =
              (Inr None,
               w\<lparr>fresh := Suc (fresh w),
                 shaders := (shaders w)(fresh w := None),
                 console := console w @ [Logged (snd (glsl type source))]\<rparr>))"
  using assms
  by (auto simp add: createShader_def gl_createShader_def gl_shaderSource_def
      gl_compileShader_def gl_getShaderParameter_def gl_getShaderInfoLog_def
      gl_deleteShader_def console_log_def Let_def)

theorem createShader_result_witness:
  "(FRAGMENT_SHADER = VERTEX_SHADER \<or> FRAGMENT_SHADER = FRAGMENT_SHADER) \<and>
   \<not> fst (example_glsl FRAGMENT_SHADER ''void main() {'') \<and>
   createShader example_glsl FRAGMENT_SHADER ''void main() {'' example_world =
     (Inr None, example_world\<lparr>fresh := 1, console := [Logged ''ERROR: 0:1: syntax error'']\<rparr>) \<and>
   fst (example_glsl FRAGMENT_SHADER ''void main() {}'') \<and>
   createShader example_glsl FRAGMENT_SHADER ''void main() {}'' example_world =
     (Inr (Some 0),
      example_world\<lparr>fresh := 1,
         shaders := [0 \<mapsto> \<lparr>stage = FRAGMENT_SHADER, shader_source = ''void main() {}'',
                           compile_status = True, info_log = []\<rparr>]\<rparr>)"
  using createShader_result [of FRAGMENT_SHADER example_glsl "''void main() {''" example_world]
    createShader_result [of FRAGMENT_SHADER example_glsl "''void main() {}''" example_world]
  by (simp add: example_glsl_def example_world_def)

end
